theory Spec2Isabelle
  imports Main "HOL-Library.AList"
begin

section \<open>JavaScript values\<close>

text \<open>
  The store is JavaScript: a session payload is an arbitrary value, and the items the
  table client hands back are plain objects. Values are modelled by the JSON-like
  fragment below. An object is the list of its own properties. The numbers are a type
  parameter \<open>'n\<close>: JavaScript's numbers are IEEE doubles, with \<open>NaN\<close>, infinities and
  rounding, and the store only passes them to the engine's own operations, so the model
  fixes neither the numbers nor what the operations compute.
\<close>

datatype 'n jsval =
    JUndefined
  | JNull
  | JBool bool
  | JNum 'n
  | JStr string
  | JArr "'n jsval list"
  | JObj "(string \<times> 'n jsval) list"

datatype error =
    TypeError
  | SyntaxError
  | BackendError string

text \<open>
  What the store asks of the JavaScript engine, and takes as a parameter of its
  operations: \<open>JSON.stringify\<close> and \<open>JSON.parse\<close> (both may throw); the number that an
  integer denotes (a clock reading in milliseconds, the literal \<open>86400000\<close>); the sum
  \<open>a + b\<close> of two numbers; the comparison \<open>a >= b\<close> of two numbers; whether a number is
  truthy; and the two texts of a number that the store writes, \<open>n.toString()\<close> and
  \<open>JSON.stringify(n)\<close> (which, on a number, cannot throw).
\<close>

record 'n runtime =
  JSON_stringify :: "'n jsval \<Rightarrow> error + string"
  JSON_parse :: "string \<Rightarrow> error + 'n jsval"
  num_of_int :: "int \<Rightarrow> 'n"
  num_add :: "'n \<Rightarrow> 'n \<Rightarrow> 'n"
  num_ge :: "'n \<Rightarrow> 'n \<Rightarrow> bool"
  num_truthy :: "'n \<Rightarrow> bool"
  num_toString :: "'n \<Rightarrow> string"
  num_toJSON :: "'n \<Rightarrow> string"

text \<open>
  \<open>v.k\<close> for a property name \<open>k\<close> that no built-in prototype defines (the program reads
  \<open>cookie\<close>, \<open>maxAge\<close> and \<open>S\<close>): reading from \<open>undefined\<close> or \<open>null\<close> throws a
  TypeError, an object yields its own property or \<open>undefined\<close>, and every other value
  (boolean, number, string, array) yields \<open>undefined\<close>.
\<close>

fun get_prop :: "'n jsval \<Rightarrow> string \<Rightarrow> error + 'n jsval" where
  "get_prop JUndefined k = Inl TypeError"
| "get_prop JNull k = Inl TypeError"
| "get_prop (JObj kvs) k = Inr (case map_of kvs k of None \<Rightarrow> JUndefined | Some v \<Rightarrow> v)"
| "get_prop v k = Inr JUndefined"

text \<open>Truthiness, as \<open>!v\<close>, \<open>a && b\<close> and \<open>a || b\<close> test it.\<close>

fun truthy :: "'n runtime \<Rightarrow> 'n jsval \<Rightarrow> bool" where
  "truthy rt JUndefined = False"
| "truthy rt JNull = False"
| "truthy rt (JBool b) = b"
| "truthy rt (JNum n) = num_truthy rt n"
| "truthy rt (JStr s) = (s \<noteq> [])"
| "truthy rt (JArr xs) = True"
| "truthy rt (JObj kvs) = True"

subsection \<open>Conversions\<close>

definition is_digit :: "char \<Rightarrow> bool" where
  "is_digit c = ((48::nat) \<le> of_char c \<and> of_char c \<le> (57::nat))"

definition digits_value :: "string \<Rightarrow> nat" where
  "digits_value s = foldl (\<lambda>acc c. 10 * acc + (of_char c - 48)) 0 s"

text \<open>
  The integer a string spells: the empty string spells 0, a decimal integer literal
  (with an optional sign) its value.
\<close>

definition integer_literal :: "string \<Rightarrow> int option" where
  "integer_literal s =
     (if s = [] then Some 0
      else if list_all is_digit s then Some (int (digits_value s))
      else if hd s = CHR ''-'' \<and> tl s \<noteq> [] \<and> list_all is_digit (tl s)
        then Some (- int (digits_value (tl s)))
      else if hd s = CHR ''+'' \<and> tl s \<noteq> [] \<and> list_all is_digit (tl s)
        then Some (int (digits_value (tl s)))
      else None)"

text \<open>
  The number a string converts to (\<open>None\<close> is the \<open>NaN\<close> of a failed conversion): the
  number of the integer it spells, and \<open>NaN\<close> for any other text. The other numeric
  literals of JavaScript (fractions, exponents, hexadecimal, \<open>Infinity\<close>, surrounding
  white space) are not recognised; the program never converts such a string.
\<close>

definition string_to_number :: "'n runtime \<Rightarrow> string \<Rightarrow> 'n option" where
  "string_to_number rt s = map_option (num_of_int rt) (integer_literal s)"

fun join_commas :: "string list \<Rightarrow> string" where
  "join_commas [] = []"
| "join_commas [s] = s"
| "join_commas (s # t # ss) = s @ '','' @ join_commas (t # ss)"

text \<open>
  The string a value converts to. A plain object has no \<open>toString\<close> of its own and
  inherits the one that answers \<open>[object Object]\<close>; an array joins its elements with
  commas, \<open>undefined\<close> and \<open>null\<close> elements giving the empty string.
\<close>

fun to_string :: "'n runtime \<Rightarrow> 'n jsval \<Rightarrow> string"
  and elems_to_string :: "'n runtime \<Rightarrow> 'n jsval list \<Rightarrow> string list" where
  "to_string rt JUndefined = ''undefined''"
| "to_string rt JNull = ''null''"
| "to_string rt (JBool b) = (if b then ''true'' else ''false'')"
| "to_string rt (JNum n) = num_toString rt n"
| "to_string rt (JStr s) = s"
| "to_string rt (JArr xs) = join_commas (elems_to_string rt xs)"
| "to_string rt (JObj kvs) = ''[object Object]''"
| "elems_to_string rt [] = []"
| "elems_to_string rt (x # xs) =
     (if x = JUndefined \<or> x = JNull then [] else to_string rt x) # elems_to_string rt xs"

text \<open>
  The number a value converts to (\<open>None\<close> is \<open>NaN\<close>). An object or array is first
  reduced to a primitive: its \<open>valueOf\<close> answers the object itself, so the conversion
  falls through to \<open>toString\<close> and the number is that of the resulting text.
\<close>

fun to_number :: "'n runtime \<Rightarrow> 'n jsval \<Rightarrow> 'n option" where
  "to_number rt JUndefined = None"
| "to_number rt JNull = Some (num_of_int rt 0)"
| "to_number rt (JBool b) = Some (num_of_int rt (if b then 1 else 0))"
| "to_number rt (JNum n) = Some n"
| "to_number rt (JStr s) = string_to_number rt s"
| "to_number rt (JArr xs) = string_to_number rt (to_string rt (JArr xs))"
| "to_number rt (JObj kvs) = string_to_number rt (to_string rt (JObj kvs))"

text \<open>
  \<open>now >= v\<close> with a clock reading on the left: the right operand is converted to a
  number; the comparison is false when the conversion fails, and the engine's
  comparison of the two numbers otherwise.
\<close>

definition number_ge :: "'n runtime \<Rightarrow> int \<Rightarrow> 'n jsval \<Rightarrow> bool" where
  "number_ge rt now v =
     (case to_number rt v of None \<Rightarrow> False | Some m \<Rightarrow> num_ge rt (num_of_int rt now) m)"

text \<open>\<open>v.toString()\<close>: a method call, which throws on \<open>undefined\<close> and \<open>null\<close>.\<close>

definition call_toString :: "'n runtime \<Rightarrow> 'n jsval \<Rightarrow> error + string" where
  "call_toString rt v =
     (if v = JUndefined \<or> v = JNull then Inl TypeError else Inr (to_string rt v))"

section \<open>The table service\<close>

text \<open>
  The store talks to one external collaborator, a key-value table client with the
  requests \<open>getItem\<close>, \<open>putItem\<close>, \<open>deleteItem\<close> and \<open>updateItem\<close>. The client is
  not part of the store's source; this section models the service behind it, as far as
  the store uses it. An attribute value travels wrapped in an object that names its
  type, \<open>{S: text}\<close> for a string and \<open>{N: text}\<close> for a number, both on the way in
  (\<open>set\<close> writes \<open>expires: {'N': ...}\<close> and \<open>sess: {'S': ...}\<close>) and on the way out
  (\<open>get\<close> reads the payload as \<open>result.Item.sess.S\<close>).
\<close>

datatype attr = AttrS string | AttrN string

type_synonym item = "(string \<times> attr) list"

fun js_of_attr :: "attr \<Rightarrow> 'n jsval" where
  "js_of_attr (AttrS s) = JObj [(''S'', JStr s)]"
| "js_of_attr (AttrN s) = JObj [(''N'', JStr s)]"

definition js_of_item :: "item \<Rightarrow> 'n jsval" where
  "js_of_item it = JObj (map (\<lambda>(k, a). (k, js_of_attr a)) it)"

text \<open>
  A request names its table; \<open>GetItem\<close> carries the key and the \<open>ConsistentRead\<close>
  flag, \<open>PutItem\<close> the whole item, \<open>DeleteItem\<close> the key, and \<open>UpdateItem\<close> the key,
  the name of the one attribute its \<open>SET\<close> expression assigns and the value assigned.
\<close>

datatype request =
    GetItem string string bool
  | PutItem string item
  | DeleteItem string string
  | UpdateItem string string string attr

text \<open>
  The service holds, for every table name, the items by the string value of their key
  attribute \<open>id\<close>. It records the requests it receives. A request may fail for reasons
  of the service's own (network, throttling, permissions): \<open>faults\<close> says, for the
  \<open>n\<close>-th request received, whether it fails and with what error; a failed request
  changes nothing.
\<close>

record backend =
  tables :: "string \<Rightarrow> string \<rightharpoonup> item"
  faults :: "nat \<Rightarrow> error option"
  requests :: "request list"

text \<open>
  What a request does when it does not fail. A put replaces the item under the key it
  carries (and is rejected without one); a delete of a missing item is no error; an
  update assigns the attribute on the existing item and creates the item, with its key
  and that attribute, when there is none.
\<close>

fun perform :: "request \<Rightarrow> (string \<Rightarrow> string \<rightharpoonup> item)
    \<Rightarrow> (error + item option) \<times> (string \<Rightarrow> string \<rightharpoonup> item)" where
  "perform (GetItem t k c) T = (Inr (T t k), T)"
| "perform (PutItem t it) T =
     (case map_of it ''id'' of
        Some (AttrS k) \<Rightarrow> (Inr None, T(t := (T t)(k \<mapsto> it)))
      | _ \<Rightarrow> (Inl (BackendError ''ValidationException''), T))"
| "perform (DeleteItem t k) T = (Inr None, T(t := (T t)(k := None)))"
| "perform (UpdateItem t k a v) T =
     (case T t k of
        None \<Rightarrow> (Inr None, T(t := (T t)(k \<mapsto> [(''id'', AttrS k), (a, v)])))
      | Some it \<Rightarrow> (Inr None, T(t := (T t)(k \<mapsto> AList.update a v it))))"

definition send :: "request \<Rightarrow> backend \<Rightarrow> (error + item option) \<times> backend" where
  "send r b =
     (let b1 = b\<lparr>requests := requests b @ [r]\<rparr> in
      case faults b (length (requests b)) of
        Some e \<Rightarrow> (Inl e, b1)
      | None \<Rightarrow> (let (res, T) = perform r (tables b) in (res, b1\<lparr>tables := T\<rparr>)))"

definition getItem :: "string \<Rightarrow> string \<Rightarrow> backend \<Rightarrow> (error + item option) \<times> backend" where
  "getItem t k b = send (GetItem t k True) b"

definition putItem :: "string \<Rightarrow> item \<Rightarrow> backend \<Rightarrow> (error + item option) \<times> backend" where
  "putItem t it b = send (PutItem t it) b"

definition deleteItem :: "string \<Rightarrow> string \<Rightarrow> backend \<Rightarrow> (error + item option) \<times> backend" where
  "deleteItem t k b = send (DeleteItem t k) b"

definition updateItem :: "string \<Rightarrow> string \<Rightarrow> string \<Rightarrow> attr \<Rightarrow> backend
    \<Rightarrow> (error + item option) \<times> backend" where
  "updateItem t k a v b = send (UpdateItem t k a v) b"

section \<open>The session store\<close>

definition oneDayInMilliseconds :: int where
  "oneDayInMilliseconds = 86400000"

record options =
  opt_prefix :: "string option"
  opt_table :: "string option"

record store =
  prefix :: string
  table :: string

text \<open>
  The constructor's configuration: \<open>null == options.prefix ? 'sess:' : options.prefix\<close>
  keeps an empty prefix, while \<open>options.table || 'sessions'\<close> replaces an empty table
  name. (The constructor also asks the service to describe, and if need be create, the
  table; that touches no item.)
\<close>

definition DynamoDBStore :: "options \<Rightarrow> store" where
  "DynamoDBStore opts =
     \<lparr> prefix = (case opt_prefix opts of None \<Rightarrow> ''sess:'' | Some p \<Rightarrow> p),
       table = (case opt_table opts of None \<Rightarrow> ''sessions''
                | Some t \<Rightarrow> if t = [] then ''sessions'' else t) \<rparr>"

text \<open>
  An operation either throws to its caller or invokes its callback, with \<open>fn(err)\<close> or
  with \<open>fn(null, value)\<close>. Operations run one after another: each is a function of the
  service's state at its start, of the clock reading \<open>now\<close> (\<open>+new Date\<close>, an integer
  number of milliseconds), and returns the state at its completion.
\<close>

datatype 'n reply = Failure error | Success "'n jsval"

datatype 'n outcome = Throws error | Calls "'n reply"

text \<open>
  The service's answer as the callback sees it; the data of a put, delete or update
  answer is an empty object.
\<close>

definition reply_of :: "error + item option \<Rightarrow> 'n reply" where
  "reply_of res = (case res of Inl e \<Rightarrow> Failure e | Inr d \<Rightarrow> Success (JObj []))"

text \<open>
  \<open>destroy\<close> hands the callback it is given to \<open>deleteItem\<close>; its outcome here is what
  that callback is called with (a caller that passes none observes nothing). The
  answer of a delete holds no number, so its values are over \<open>unit\<close>.
\<close>

definition destroy :: "store \<Rightarrow> string \<Rightarrow> backend \<Rightarrow> unit outcome \<times> backend" where
  "destroy this sid b =
     (let (res, b1) = deleteItem (table this) sid b in (Calls (reply_of res), b1))"

text \<open>
  In \<open>get\<close>, the two calls of \<open>destroy\<close> pass a callback that ignores the outcome of the
  delete and answers \<open>fn(null, null)\<close>; everything after a successful read runs inside
  \<open>try\<close>, whose \<open>catch\<close> answers \<open>fn(err)\<close>.
\<close>

definition get :: "'n runtime \<Rightarrow> store \<Rightarrow> int \<Rightarrow> string \<Rightarrow> backend \<Rightarrow> 'n outcome \<times> backend" where
  "get rt this now sid b =
     (let psid = prefix this @ sid;
          (res, b1) = getItem (table this) psid b
      in case res of
           Inl err \<Rightarrow> (Calls (Failure err), b1)
         | Inr None \<Rightarrow> (Calls (Success JNull), b1)
         | Inr (Some it) \<Rightarrow>
             (case get_prop (js_of_item it) ''expires'' of
                Inl e \<Rightarrow> (Calls (Failure e), b1)
              | Inr expires \<Rightarrow>
                  if truthy rt expires \<and> number_ge rt now expires then
                    (let (r, b2) = destroy this psid b1
                     in (Calls (Success JNull), b2))
                  else
                    (case get_prop (js_of_item it) ''sess'' of
                       Inl e \<Rightarrow> (Calls (Failure e), b1)
                     | Inr s0 \<Rightarrow>
                         (let sess = (if truthy rt s0 then s0 else JObj [(''S'', JNull)]) in
                          case get_prop sess ''S'' of
                            Inl e \<Rightarrow> (Calls (Failure e), b1)
                          | Inr sS \<Rightarrow>
                              if \<not> truthy rt sS then
                                (let (r, b2) = destroy this psid b1
                                 in (Calls (Success JNull), b2))
                              else
                                (case call_toString rt sS of
                                   Inl e \<Rightarrow> (Calls (Failure e), b1)
                                 | Inr txt \<Rightarrow>
                                     (case JSON_parse rt txt of
                                        Inl e \<Rightarrow> (Calls (Failure e), b1)
                                      | Inr v \<Rightarrow> (Calls (Success v), b1)))))))"

text \<open>
  The store's \<open>set\<close>, named \<open>set_session\<close> here because \<open>set\<close> is taken. The expiry
  is the engine's sum of the clock reading and the max-age (\<open>typeof\<close> is \<open>'number'\<close>
  exactly for a \<open>JNum\<close>) or the one-day constant; then the payload is serialized, the
  expiry is written as \<open>JSON.stringify(expires)\<close>, and the item is put.
\<close>

definition set_session :: "'n runtime \<Rightarrow> store \<Rightarrow> int \<Rightarrow> string \<Rightarrow> 'n jsval \<Rightarrow> backend
    \<Rightarrow> 'n outcome \<times> backend" where
  "set_session rt this now sid sess b =
     (let psid = prefix this @ sid in
      case get_prop sess ''cookie'' of
        Inl e \<Rightarrow> (Throws e, b)
      | Inr cookie \<Rightarrow>
          (case get_prop cookie ''maxAge'' of
             Inl e \<Rightarrow> (Throws e, b)
           | Inr maxAge \<Rightarrow>
               (let expires =
                      (case maxAge of
                         JNum m \<Rightarrow> num_add rt (num_of_int rt now) m
                       | _ \<Rightarrow> num_add rt (num_of_int rt now)
                                (num_of_int rt oneDayInMilliseconds))
                in case JSON_stringify rt sess of
                     Inl e \<Rightarrow> (Throws e, b)
                   | Inr txt \<Rightarrow>
                       (let params = [(''id'', AttrS psid),
                                      (''expires'', AttrN (num_toJSON rt expires)),
                                      (''type'', AttrS ''connect-session''),
                                      (''sess'', AttrS txt)];
                            (res, b1) = putItem (table this) params b
                        in (Calls (reply_of res), b1)))))"

text \<open>
  \<open>touch\<close> repeats the computation of the expiry and writes it as
  \<open>expires.toString()\<close>.
\<close>

definition touch :: "'n runtime \<Rightarrow> store \<Rightarrow> int \<Rightarrow> string \<Rightarrow> 'n jsval \<Rightarrow> backend
    \<Rightarrow> 'n outcome \<times> backend" where
  "touch rt this now sid sess b =
     (let psid = prefix this @ sid in
      case get_prop sess ''cookie'' of
        Inl e \<Rightarrow> (Throws e, b)
      | Inr cookie \<Rightarrow>
          (case get_prop cookie ''maxAge'' of
             Inl e \<Rightarrow> (Throws e, b)
           | Inr maxAge \<Rightarrow>
               (let expires =
                      (case maxAge of
                         JNum m \<Rightarrow> num_add rt (num_of_int rt now) m
                       | _ \<Rightarrow> num_add rt (num_of_int rt now)
                                (num_of_int rt oneDayInMilliseconds));
                    (res, b1) = updateItem (table this) psid ''expires''
                                  (AttrN (num_toString rt expires)) b
                in (Calls (reply_of res), b1))))"

section \<open>A reference engine\<close>

text \<open>
  The theorems about the store hold for any engine. To run the store on concrete
  sessions, this section supplies one. Its numbers are the integers, added exactly,
  compared as integers and printed in plain decimal, by \<open>JSON.stringify\<close> and by
  \<open>toString\<close> alike: that is JavaScript on the integers of magnitude at most
  9007199254740992 whose sums stay in that range, which covers the clock readings and ages in
  milliseconds of the runs below, and it is not JavaScript beyond (where sums round,
  large numbers print with an exponent, and \<open>NaN\<close> and the infinities print
  differently under the two calls). Its JSON codec is for texts without insignificant
  white space, over integers and over strings whose only escapes are those of the
  quotation mark and the backslash. Writing skips object members whose value is
  \<open>undefined\<close> and writes \<open>undefined\<close> array elements as \<open>null\<close>, as \<open>JSON.stringify\<close>
  does. (At top level \<open>JSON.stringify(undefined)\<close> is \<open>undefined\<close>, not a text; the store
  cannot reach that call, since reading the cookie of \<open>undefined\<close> throws first.)
\<close>

definition digit_char :: "nat \<Rightarrow> char" where
  "digit_char d = ''0123456789'' ! d"

function nat_to_string :: "nat \<Rightarrow> string" where
  "nat_to_string n =
     (if n < 10 then [digit_char n] else nat_to_string (n div 10) @ [digit_char (n mod 10)])"
  by pat_completeness auto
termination
  by (relation "measure (\<lambda>n. n)") auto

declare nat_to_string.simps [simp del]

text \<open>The plain decimal text of an integer.\<close>

definition number_to_string :: "int \<Rightarrow> string" where
  "number_to_string n =
     (if n < 0 then CHR ''-'' # nat_to_string (nat (- n)) else nat_to_string (nat n))"

definition dquote :: char where
  "dquote = CHR 0x22"

definition backslash :: char where
  "backslash = CHR 0x5C"

definition json_quote :: "string \<Rightarrow> string" where
  "json_quote s =
     dquote # concat (map (\<lambda>c. if c = dquote \<or> c = backslash then [backslash, c] else [c]) s)
       @ [dquote]"

fun json_text :: "int jsval \<Rightarrow> string"
  and json_elems :: "int jsval list \<Rightarrow> string list"
  and json_members :: "(string \<times> int jsval) list \<Rightarrow> string list" where
  "json_text JUndefined = ''null''"
| "json_text JNull = ''null''"
| "json_text (JBool b) = (if b then ''true'' else ''false'')"
| "json_text (JNum n) = number_to_string n"
| "json_text (JStr s) = json_quote s"
| "json_text (JArr xs) = ''['' @ join_commas (json_elems xs) @ '']''"
| "json_text (JObj kvs) = ''{'' @ join_commas (json_members kvs) @ ''}''"
| "json_elems [] = []"
| "json_elems (x # xs) = json_text x # json_elems xs"
| "json_members [] = []"
| "json_members (kv # kvs) =
     (if snd kv = JUndefined then json_members kvs
      else (json_quote (fst kv) @ '':'' @ json_text (snd kv)) # json_members kvs)"

definition json_stringify :: "int jsval \<Rightarrow> error + string" where
  "json_stringify v = Inr (json_text v)"

text \<open>The characters of a string literal after its opening quotation mark.\<close>

fun parse_string :: "string \<Rightarrow> (string \<times> string) option" where
  "parse_string [] = None"
| "parse_string [c] = (if c = dquote then Some ([], []) else None)"
| "parse_string (c # d # r) =
     (if c = dquote then Some ([], d # r)
      else if c = backslash then
        (if d = dquote \<or> d = backslash then
           (case parse_string r of None \<Rightarrow> None | Some (s, rest) \<Rightarrow> Some (d # s, rest))
         else None)
      else (case parse_string (d # r) of None \<Rightarrow> None | Some (s, rest) \<Rightarrow> Some (c # s, rest)))"

definition parse_number :: "string \<Rightarrow> (int jsval \<times> string) option" where
  "parse_number s =
     (let neg = (s \<noteq> [] \<and> hd s = CHR ''-'');
          t = (if neg then tl s else s);
          ds = takeWhile is_digit t
      in if ds = [] \<or> (length ds > 1 \<and> hd ds = CHR ''0'') then None
         else Some (JNum (if neg then - int (digits_value ds) else int (digits_value ds)),
                    dropWhile is_digit t))"

text \<open>
  Recursive descent, bounded by a budget of nested calls; \<open>json_parse\<close> grants twice
  the length of the text, and every call that uses budget is followed by the
  consumption of a character.
\<close>

fun parse_value :: "nat \<Rightarrow> string \<Rightarrow> (int jsval \<times> string) option"
  and parse_elems :: "nat \<Rightarrow> string \<Rightarrow> (int jsval list \<times> string) option"
  and parse_members :: "nat \<Rightarrow> string \<Rightarrow> ((string \<times> int jsval) list \<times> string) option" where
  "parse_value 0 s = None"
| "parse_value (Suc f) s =
     (if take 4 s = ''null'' then Some (JNull, drop 4 s)
      else if take 4 s = ''true'' then Some (JBool True, drop 4 s)
      else if take 5 s = ''false'' then Some (JBool False, drop 5 s)
      else if s = [] then None
      else if hd s = dquote then
        (case parse_string (tl s) of None \<Rightarrow> None | Some (str, r) \<Rightarrow> Some (JStr str, r))
      else if hd s = CHR ''['' then
        (if take 1 (tl s) = '']'' then Some (JArr [], drop 1 (tl s))
         else (case parse_elems f (tl s) of None \<Rightarrow> None | Some (vs, r) \<Rightarrow> Some (JArr vs, r)))
      else if hd s = CHR ''{'' then
        (if take 1 (tl s) = ''}'' then Some (JObj [], drop 1 (tl s))
         else (case parse_members f (tl s) of None \<Rightarrow> None | Some (kvs, r) \<Rightarrow> Some (JObj kvs, r)))
      else parse_number s)"
| "parse_elems 0 s = None"
| "parse_elems (Suc f) s =
     (case parse_value f s of
        None \<Rightarrow> None
      | Some (v, r) \<Rightarrow>
          if take 1 r = '','' then
            (case parse_elems f (drop 1 r) of None \<Rightarrow> None | Some (vs, r') \<Rightarrow> Some (v # vs, r'))
          else if take 1 r = '']'' then Some ([v], drop 1 r)
          else None)"
| "parse_members 0 s = None"
| "parse_members (Suc f) s =
     (if s = [] \<or> hd s \<noteq> dquote then None
      else
        (case parse_string (tl s) of
           None \<Rightarrow> None
         | Some (k, r) \<Rightarrow>
             if take 1 r \<noteq> '':'' then None
             else
               (case parse_value f (drop 1 r) of
                  None \<Rightarrow> None
                | Some (v, r') \<Rightarrow>
                    if take 1 r' = '','' then
                      (case parse_members f (drop 1 r') of
                         None \<Rightarrow> None
                       | Some (kvs, r'') \<Rightarrow> Some ((k, v) # kvs, r''))
                    else if take 1 r' = ''}'' then Some ([(k, v)], drop 1 r')
                    else None)))"

definition json_parse :: "string \<Rightarrow> error + int jsval" where
  "json_parse s =
     (case parse_value (2 * length s + 2) s of
        Some (v, []) \<Rightarrow> Inr v
      | _ \<Rightarrow> Inl SyntaxError)"

definition engine :: "int runtime" where
  "engine =
     \<lparr> JSON_stringify = json_stringify, JSON_parse = json_parse,
       num_of_int = (\<lambda>i. i), num_add = (\<lambda>a b. a + b), num_ge = (\<lambda>a b. a \<ge> b),
       num_truthy = (\<lambda>n. n \<noteq> 0), num_toString = number_to_string,
       num_toJSON = number_to_string \<rparr>"

section \<open>Vocabulary of the properties\<close>

text \<open>
  A payload is JSON-serializable for an engine when writing it gives a (non-empty) text
  that reads back as the same value.
\<close>

definition json_serializable :: "'n runtime \<Rightarrow> 'n jsval \<Rightarrow> bool" where
  "json_serializable rt p =
     (case JSON_stringify rt p of
        Inl e \<Rightarrow> False
      | Inr s \<Rightarrow> s \<noteq> [] \<and> JSON_parse rt s = Inr p)"

text \<open>The numeric max-age a payload declares in its cookie, if it declares one.\<close>

definition numeric_maxAge :: "'n jsval \<Rightarrow> 'n option" where
  "numeric_maxAge p =
     (case get_prop p ''cookie'' of
        Inl e \<Rightarrow> None
      | Inr cookie \<Rightarrow>
          (case get_prop cookie ''maxAge'' of Inr (JNum m) \<Rightarrow> Some m | _ \<Rightarrow> None))"

text \<open>
  The expiry rule in the specification's words: the write time plus the max-age when the
  payload declares a numeric one, the write time plus one day (in milliseconds)
  otherwise; the sum is the engine's.
\<close>

definition spec_expires :: "'n runtime \<Rightarrow> int \<Rightarrow> 'n jsval \<Rightarrow> 'n" where
  "spec_expires rt now p =
     (case numeric_maxAge p of
        Some m \<Rightarrow> num_add rt (num_of_int rt now) m
      | None \<Rightarrow> num_add rt (num_of_int rt now) (num_of_int rt 86400000))"

text \<open>
  A payload has no cookie to read a max-age from when it is \<open>undefined\<close> or \<open>null\<close>
  itself, or when its \<open>cookie\<close> is absent, \<open>undefined\<close> or \<open>null\<close>.
\<close>

definition no_cookie :: "'n jsval \<Rightarrow> bool" where
  "no_cookie p =
     (case get_prop p ''cookie'' of
        Inl e \<Rightarrow> True
      | Inr cookie \<Rightarrow> cookie = JUndefined \<or> cookie = JNull)"

text \<open>The key a request addresses, as the attribute value under \<open>id\<close>, and its table.\<close>

fun request_key :: "request \<Rightarrow> attr option" where
  "request_key (GetItem t k c) = Some (AttrS k)"
| "request_key (PutItem t it) = map_of it ''id''"
| "request_key (DeleteItem t k) = Some (AttrS k)"
| "request_key (UpdateItem t k a v) = Some (AttrS k)"

fun request_table :: "request \<Rightarrow> string" where
  "request_table (GetItem t k c) = t"
| "request_table (PutItem t it) = t"
| "request_table (DeleteItem t k) = t"
| "request_table (UpdateItem t k a v) = t"

text \<open>The value a write request gives the \<open>expires\<close> attribute.\<close>

fun written_expires :: "request \<Rightarrow> attr option" where
  "written_expires (PutItem t it) = map_of it ''expires''"
| "written_expires (UpdateItem t k a v) = (if a = ''expires'' then Some v else None)"
| "written_expires r = None"

text \<open>The requests an operation added to the service's record.\<close>

definition issued :: "backend \<Rightarrow> backend \<Rightarrow> request list" where
  "issued b b' = drop (length (requests b)) (requests b')"

subsection \<open>Concrete sessions\<close>

definition default_store :: store where
  "default_store = DynamoDBStore \<lparr> opt_prefix = None, opt_table = None \<rparr>"

definition empty_backend :: backend where
  "empty_backend = \<lparr> tables = (\<lambda>t. Map.empty), faults = (\<lambda>n. None), requests = [] \<rparr>"

definition alice :: "int jsval" where
  "alice = JObj [(''cookie'', JObj [(''maxAge'', JNum 5000)]), (''user'', JStr ''alice'')]"

definition guest :: "int jsval" where
  "guest = JObj [(''cookie'', JObj [(''path'', JStr ''/'')]), (''user'', JStr ''guest'')]"

definition alice_text :: string where
  "alice_text = ''{\"cookie\":{\"maxAge\":5000},\"user\":\"alice\"}''"

definition guest_text :: string where
  "guest_text = ''{\"cookie\":{\"path\":\"/\"},\"user\":\"guest\"}''"

text \<open>The record \<open>set\<close> writes for \<open>alice\<close> under the id \<open>abc123\<close> at time 1000.\<close>

definition alice_item :: item where
  "alice_item = [(''id'', AttrS ''sess:abc123''), (''expires'', AttrN ''6000''),
                 (''type'', AttrS ''connect-session''), (''sess'', AttrS alice_text)]"

definition after_set :: backend where
  "after_set = snd (set_session engine default_store 1000 ''abc123'' alice empty_backend)"

definition after_get :: backend where
  "after_get = snd (get engine default_store 7000 ''abc123'' after_set)"

definition after_destroy :: backend where
  "after_destroy = snd (destroy default_store ''abc123'' after_set)"

definition after_touch :: backend where
  "after_touch = snd (touch engine default_store 2000 ''abc123'' guest after_set)"

definition guest_stored :: backend where
  "guest_stored = snd (set_session engine default_store 1000 ''abc123'' guest empty_backend)"

text \<open>A record whose payload is not JSON, and a record without payload.\<close>

definition corrupt_item :: item where
  "corrupt_item = [(''id'', AttrS ''sess:abc123''), (''expires'', AttrN ''6000''),
                   (''type'', AttrS ''connect-session''), (''sess'', AttrS ''{broken'')]"

definition corrupt_backend :: backend where
  "corrupt_backend =
     \<lparr> tables = (\<lambda>t. Map.empty)(''sessions'' := [''sess:abc123'' \<mapsto> corrupt_item]),
       faults = (\<lambda>n. None), requests = [] \<rparr>"

definition bare_item :: item where
  "bare_item = [(''id'', AttrS ''sess:abc123''), (''expires'', AttrN ''6000'')]"

definition bare_backend :: backend where
  "bare_backend =
     \<lparr> tables = (\<lambda>t. Map.empty)(''sessions'' := [''sess:abc123'' \<mapsto> bare_item]),
       faults = (\<lambda>n. None), requests = [] \<rparr>"

text \<open>A payload without cookie, and one whose cookie is a string.\<close>

definition no_cookie_payload :: "int jsval" where
  "no_cookie_payload = JObj [(''user'', JStr ''alice'')]"

definition string_cookie_payload :: "int jsval" where
  "string_cookie_payload = JObj [(''cookie'', JStr ''x''), (''user'', JStr ''alice'')]"

section \<open>Basic facts\<close>

lemma send_fault:
  "faults b (length (requests b)) = Some e \<Longrightarrow> send r b = (Inl e, b\<lparr>requests := requests b @ [r]\<rparr>)"
  by (simp add: send_def)

lemma send_ok:
  "faults b (length (requests b)) = None \<Longrightarrow>
   send r b = (fst (perform r (tables b)),
               b\<lparr>requests := requests b @ [r], tables := snd (perform r (tables b))\<rparr>)"
  by (simp add: send_def split_beta)

lemma requests_send: "requests (snd (send r b)) = requests b @ [r]"
  by (simp add: send_def Let_def split_beta split: option.splits)

lemma faults_send: "faults (snd (send r b)) = faults b"
  by (simp add: send_def Let_def split_beta split: option.splits)

lemma snd_destroy:
  "snd (destroy this k b) = snd (send (DeleteItem (table this) k) b)"
  by (simp add: destroy_def deleteItem_def split_beta)

lemma string_to_number_object: "string_to_number rt ''[object Object]'' = None"
  by (simp add: string_to_number_def integer_literal_def is_digit_def)

lemma attr_never_past: "\<not> number_ge rt now (js_of_attr a)"
  by (cases a) (simp_all add: number_ge_def string_to_number_object)

lemma item_prop:
  "get_prop (js_of_item it) k =
     Inr (case map_of it k of None \<Rightarrow> JUndefined | Some a \<Rightarrow> js_of_attr a)"
  by (simp add: js_of_item_def map_of_map split: option.splits)

lemma truthy_attr: "truthy rt (js_of_attr a)"
  by (cases a) simp_all

lemma attr_S:
  "get_prop (js_of_attr a) ''S'' = Inr (case a of AttrS s \<Rightarrow> JStr s | AttrN s \<Rightarrow> JUndefined)"
  by (cases a) simp_all

lemma get_answered:
  assumes "faults b (length (requests b)) = None"
  shows "get rt this now sid b =
    (let psid = prefix this @ sid;
         b1 = b\<lparr>requests := requests b @ [GetItem (table this) psid True]\<rparr>
     in case tables b (table this) psid of
          None \<Rightarrow> (Calls (Success JNull), b1)
        | Some it \<Rightarrow>
            (case map_of it ''sess'' of
               Some (AttrS txt) \<Rightarrow>
                 if txt = [] then
                   (Calls (Success JNull), snd (send (DeleteItem (table this) psid) b1))
                 else (Calls (case JSON_parse rt txt of Inl e \<Rightarrow> Failure e | Inr v \<Rightarrow> Success v), b1)
             | _ \<Rightarrow> (Calls (Success JNull), snd (send (DeleteItem (table this) psid) b1))))"
  using assms
  by (simp add: get_def getItem_def send_ok Let_def item_prop attr_never_past truthy_attr
        attr_S call_toString_def split_beta snd_destroy
      split: option.splits attr.splits sum.splits)

lemma set_session_succeeded:
  assumes "set_session rt this now sid p b = (Calls (Success ack), b1)"
  shows "\<exists>e s. JSON_stringify rt p = Inr s \<and>
           tables b1 (table this) (prefix this @ sid) =
             Some [(''id'', AttrS (prefix this @ sid)), (''expires'', AttrN e),
                   (''type'', AttrS ''connect-session''), (''sess'', AttrS s)] \<and>
           faults b1 = faults b \<and> length (requests b1) = Suc (length (requests b))"
  using assms
  by (auto simp: set_session_def putItem_def send_def Let_def reply_of_def split_beta
      split: sum.splits option.splits)

lemma get_after_set:
  assumes "set_session rt this t0 sid p b = (Calls (Success ack), b1)"
    and "json_serializable rt p"
    and "faults b1 (length (requests b1)) = None"
  shows "fst (get rt this t1 sid b1) = Calls (Success p)"
proof -
  from set_session_succeeded [OF assms(1)] obtain e s where
    ser: "JSON_stringify rt p = Inr s" and
    stored: "tables b1 (table this) (prefix this @ sid) =
       Some [(''id'', AttrS (prefix this @ sid)), (''expires'', AttrN e),
             (''type'', AttrS ''connect-session''), (''sess'', AttrS s)]"
    by blast
  from assms(2) ser have "s \<noteq> []" and "JSON_parse rt s = Inr p"
    by (simp_all add: json_serializable_def)
  then show ?thesis
    by (simp add: get_answered [OF assms(3)] stored Let_def)
qed

lemma issued_send: "issued b (snd (send r b)) = [r]"
  by (simp add: issued_def requests_send)

lemma issued_same: "issued b b = []"
  by (simp add: issued_def)

lemma expires_value:
  "get_prop p ''cookie'' = Inr cookie \<Longrightarrow> get_prop cookie ''maxAge'' = Inr maxAge \<Longrightarrow>
   (case maxAge of
      JNum m \<Rightarrow> num_add rt (num_of_int rt now) m
    | _ \<Rightarrow> num_add rt (num_of_int rt now) (num_of_int rt oneDayInMilliseconds))
     = spec_expires rt now p"
  by (cases maxAge) (simp_all add: spec_expires_def numeric_maxAge_def oneDayInMilliseconds_def)

lemma no_cookie_iff:
  "no_cookie p \<longleftrightarrow>
     (case get_prop p ''cookie'' of Inl e \<Rightarrow> True
      | Inr cookie \<Rightarrow> (case get_prop cookie ''maxAge'' of Inl e \<Rightarrow> True | Inr m \<Rightarrow> False))"
  apply (simp add: no_cookie_def split: sum.splits)
  apply (intro allI impI)
  subgoal for c by (cases c) simp_all
  done

lemma get_prop_error: "get_prop v k = Inl e \<Longrightarrow> e = TypeError"
  by (cases v) simp_all

lemma touch_throws:
  "no_cookie p \<Longrightarrow> touch rt this now sid p b = (Throws TypeError, b)"
  by (auto simp: no_cookie_iff touch_def split: sum.splits dest: get_prop_error)

lemma set_session_throws:
  "no_cookie p \<Longrightarrow> set_session rt this now sid p b = (Throws TypeError, b)"
  by (auto simp: no_cookie_iff set_session_def split: sum.splits dest: get_prop_error)

lemma touch_runs:
  assumes "\<not> no_cookie p"
  shows "touch rt this now sid p b =
     (let (res, b1) = send (UpdateItem (table this) (prefix this @ sid) ''expires''
                             (AttrN (num_toString rt (spec_expires rt now p)))) b
      in (Calls (reply_of res), b1))"
  using assms
  by (auto simp: no_cookie_iff touch_def Let_def updateItem_def expires_value split: sum.splits)

lemma set_session_runs:
  assumes "\<not> no_cookie p" and "JSON_stringify rt p = Inr s"
  shows "set_session rt this now sid p b =
     (let (res, b1) = send (PutItem (table this)
                             [(''id'', AttrS (prefix this @ sid)),
                              (''expires'', AttrN (num_toJSON rt (spec_expires rt now p))),
                              (''type'', AttrS ''connect-session''),
                              (''sess'', AttrS s)]) b
      in (Calls (reply_of res), b1))"
  using assms
  by (auto simp: no_cookie_iff set_session_def Let_def putItem_def expires_value split: sum.splits)

lemma set_session_stringify_throws:
  assumes "\<not> no_cookie p" and "JSON_stringify rt p = Inl e"
  shows "set_session rt this now sid p b = (Throws e, b)"
  using assms
  by (auto simp: no_cookie_iff set_session_def Let_def split: sum.splits)

lemma issued_get_cases:
  "issued b (snd (get rt this now sid b)) = [GetItem (table this) (prefix this @ sid) True] \<or>
   issued b (snd (get rt this now sid b)) =
     [GetItem (table this) (prefix this @ sid) True, DeleteItem (table this) (prefix this @ sid)]"
  by (auto simp: get_def getItem_def destroy_def deleteItem_def Let_def split_beta issued_def
        requests_send
      split: sum.splits option.splits if_splits)

lemma issued_touch_cases:
  "issued b (snd (touch rt this now sid p b)) =
     (if no_cookie p then []
      else [UpdateItem (table this) (prefix this @ sid) ''expires''
              (AttrN (num_toString rt (spec_expires rt now p)))])"
  by (simp add: touch_throws touch_runs issued_same issued_send split_beta)

lemma touch_frame:
  assumes "tables b t k = Some it"
  shows "\<exists>it'. tables (snd (touch rt this now sid p b)) t k = Some it' \<and>
           (\<forall>a. a \<noteq> ''expires'' \<longrightarrow> map_of it' a = map_of it a)"
proof (cases "no_cookie p")
  case True
  with assms show ?thesis by (simp add: touch_throws)
next
  case False
  show ?thesis
  proof (cases "faults b (length (requests b))")
    case None
    from assms show ?thesis
      by (auto simp: touch_runs [OF False] send_ok [OF None] split_beta update_conv'
          split: option.splits)
  next
    case (Some e)
    from assms show ?thesis
      by (auto simp: touch_runs [OF False] send_fault [OF Some])
  qed
qed

subsection \<open>Running the reference engine\<close>

lemmas json_write = json_stringify_def json_quote_def dquote_def backslash_def
  number_to_string_def nat_to_string.simps digit_char_def

lemmas json_read = json_parse_def dquote_def backslash_def parse_number_def is_digit_def
  digits_value_def eval_nat_numeral

lemma engine_num:
  "num_of_int engine i = i" "num_add engine x y = x + y" "num_ge engine x y = (x \<ge> y)"
  "num_toString engine x = number_to_string x" "num_toJSON engine x = number_to_string x"
  by (simp_all add: engine_def)

lemma store_fields: "prefix default_store = ''sess:''" "table default_store = ''sessions''"
  by (simp_all add: default_store_def DynamoDBStore_def)

lemma empty_backend_fields:
  "tables empty_backend = (\<lambda>t. Map.empty)" "faults empty_backend = (\<lambda>n. None)"
  "requests empty_backend = []"
  by (simp_all add: empty_backend_def)

lemma decimal_6000: "number_to_string 6000 = ''6000''"
  by (simp add: number_to_string_def nat_to_string.simps digit_char_def)

lemma decimal_86401000: "number_to_string 86401000 = ''86401000''"
  by (simp add: number_to_string_def nat_to_string.simps digit_char_def)

lemma alice_stringify: "JSON_stringify engine alice = Inr alice_text"
  by (simp add: engine_def alice_def alice_text_def json_write)

lemma alice_parse: "JSON_parse engine alice_text = Inr alice"
  by (simp add: engine_def alice_def alice_text_def json_read)

lemma alice_text_nonempty: "alice_text \<noteq> []"
  by (simp add: alice_text_def)

lemma alice_serializable: "json_serializable engine alice"
  by (simp add: json_serializable_def alice_stringify alice_parse alice_text_nonempty)

lemma alice_cookie:
  "\<not> no_cookie alice" "numeric_maxAge alice = Some 5000" "spec_expires engine 1000 alice = 6000"
  by (simp_all add: no_cookie_def alice_def numeric_maxAge_def spec_expires_def engine_num)

lemma guest_stringify: "JSON_stringify engine guest = Inr guest_text"
  by (simp add: engine_def guest_def guest_text_def json_write)

lemma guest_parse: "JSON_parse engine guest_text = Inr guest"
  by (simp add: engine_def guest_def guest_text_def json_read)

lemma guest_text_nonempty: "guest_text \<noteq> []"
  by (simp add: guest_text_def)

lemma guest_serializable: "json_serializable engine guest"
  by (simp add: json_serializable_def guest_stringify guest_parse guest_text_nonempty)

lemma guest_cookie:
  "\<not> no_cookie guest" "numeric_maxAge guest = None" "spec_expires engine 1000 guest = 86401000"
  "spec_expires engine 2000 guest = 86402000"
  by (simp_all add: no_cookie_def guest_def numeric_maxAge_def spec_expires_def engine_num)

lemma broken_parse: "JSON_parse engine ''{broken'' = Inl SyntaxError"
  by (simp add: engine_def json_read)

lemma set_alice:
  "set_session engine default_store 1000 ''abc123'' alice empty_backend =
     (Calls (Success (JObj [])),
      \<lparr> tables = (\<lambda>t. Map.empty)(''sessions'' := [''sess:abc123'' \<mapsto> alice_item]),
        faults = (\<lambda>n. None),
        requests = [PutItem ''sessions'' alice_item] \<rparr>)"
  by (simp add: set_session_runs [OF alice_cookie(1) alice_stringify] alice_cookie store_fields
        engine_num decimal_6000 send_def empty_backend_def alice_item_def reply_of_def)

lemma after_set_fields:
  "tables after_set = (\<lambda>t. Map.empty)(''sessions'' := [''sess:abc123'' \<mapsto> alice_item])"
  "faults after_set = (\<lambda>n. None)"
  "requests after_set = [PutItem ''sessions'' alice_item]"
  by (simp_all add: after_set_def set_alice)

lemma alice_item_sess: "map_of alice_item ''sess'' = Some (AttrS alice_text)"
  by (simp add: alice_item_def)

lemma get_alice:
  "get engine default_store now ''abc123'' after_set =
     (Calls (Success alice),
      after_set\<lparr>requests := [PutItem ''sessions'' alice_item,
                               GetItem ''sessions'' ''sess:abc123'' True]\<rparr>)"
  by (simp add: get_answered after_set_fields store_fields alice_item_sess alice_parse
        alice_text_nonempty Let_def)

lemma destroy_alice:
  "destroy default_store ''abc123'' after_set =
     (Calls (Success (JObj [])),
      after_set\<lparr>requests := [PutItem ''sessions'' alice_item, DeleteItem ''sessions'' ''abc123'']\<rparr>)"
  by (simp add: destroy_def deleteItem_def send_ok after_set_fields store_fields reply_of_def
        fun_upd_idem)

lemma after_destroy_fields:
  "tables after_destroy = (\<lambda>t. Map.empty)(''sessions'' := [''sess:abc123'' \<mapsto> alice_item])"
  "faults after_destroy = (\<lambda>n. None)"
  "requests after_destroy = [PutItem ''sessions'' alice_item, DeleteItem ''sessions'' ''abc123'']"
  by (simp_all add: after_destroy_def destroy_alice after_set_fields)

lemma set_guest:
  "set_session engine default_store 1000 ''abc123'' guest empty_backend =
     (Calls (Success (JObj [])), guest_stored)"
  by (simp add: guest_stored_def set_session_runs [OF guest_cookie(1) guest_stringify]
        send_def empty_backend_def reply_of_def)

lemma guest_stored_faults: "faults guest_stored = (\<lambda>n. None)"
  by (simp add: guest_stored_def set_session_runs [OF guest_cookie(1) guest_stringify]
        send_def empty_backend_def)

lemma touch_guest_empty:
  "issued empty_backend (snd (touch engine default_store 1000 ''abc123'' guest empty_backend)) =
     [UpdateItem ''sessions'' ''sess:abc123'' ''expires'' (AttrN ''86401000'')]"
  by (simp add: touch_runs [OF guest_cookie(1)] split_beta issued_send guest_cookie store_fields
        engine_num decimal_86401000)

lemma issued_set_alice:
  "issued empty_backend (snd (set_session engine default_store 1000 ''abc123'' alice empty_backend))
     = [PutItem ''sessions'' alice_item]"
  by (simp add: set_alice issued_def empty_backend_fields)

lemma get_bare:
  "issued bare_backend (snd (get engine default_store 2000 ''abc123'' bare_backend)) =
     [GetItem ''sessions'' ''sess:abc123'' True, DeleteItem ''sessions'' ''sess:abc123'']"
  by (simp add: get_answered bare_backend_def bare_item_def store_fields Let_def
        requests_send issued_def)

lemma string_cookie_facts:
  "get_prop string_cookie_payload ''cookie'' = Inr (JStr ''x'')"
  "\<not> no_cookie string_cookie_payload"
  "numeric_maxAge string_cookie_payload = None"
  "spec_expires engine 1000 string_cookie_payload = 86401000"
  by (simp_all add: string_cookie_payload_def no_cookie_def numeric_maxAge_def spec_expires_def
        engine_num)

lemma string_cookie_stringify:
  "JSON_stringify engine string_cookie_payload
     = Inr ''{\"cookie\":\"x\",\"user\":\"alice\"}''"
  by (simp add: engine_def string_cookie_payload_def json_write)

lemma touch_string_cookie:
  "touch engine default_store 1000 ''abc123'' string_cookie_payload empty_backend =
     (Calls (Success (JObj [])),
      \<lparr> tables = (\<lambda>t. Map.empty)(''sessions'' := [''sess:abc123'' \<mapsto>
          [(''id'', AttrS ''sess:abc123''), (''expires'', AttrN ''86401000'')]]),
        faults = (\<lambda>n. None),
        requests = [UpdateItem ''sessions'' ''sess:abc123'' ''expires'' (AttrN ''86401000'')] \<rparr>)"
  by (simp add: touch_runs [OF string_cookie_facts(2)] string_cookie_facts store_fields
        engine_num decimal_86401000 send_def empty_backend_def reply_of_def)

lemma set_string_cookie:
  "fst (set_session engine default_store 1000 ''abc123'' string_cookie_payload empty_backend)
     = Calls (Success (JObj []))"
  "issued empty_backend
     (snd (set_session engine default_store 1000 ''abc123'' string_cookie_payload empty_backend))
     = [PutItem ''sessions''
          [(''id'', AttrS ''sess:abc123''), (''expires'', AttrN ''86401000''),
           (''type'', AttrS ''connect-session''),
           (''sess'', AttrS ''{\"cookie\":\"x\",\"user\":\"alice\"}'')]]"
  by (simp_all add: set_session_runs [OF string_cookie_facts(2) string_cookie_stringify]
        string_cookie_facts store_fields engine_num decimal_86401000 send_def empty_backend_fields
        reply_of_def issued_def)

lemma issued_touch_string_cookie:
  "issued empty_backend
     (snd (touch engine default_store 1000 ''abc123'' string_cookie_payload empty_backend))
     = [UpdateItem ''sessions'' ''sess:abc123'' ''expires'' (AttrN ''86401000'')]"
  by (simp add: touch_string_cookie issued_def empty_backend_fields)

lemma fst_touch_string_cookie:
  "fst (touch engine default_store 1000 ''abc123'' string_cookie_payload empty_backend)
     = Calls (Success (JObj []))"
  by (simp add: touch_string_cookie)

lemma set_alice_after_set:
  "set_session engine default_store 1000 ''abc123'' alice empty_backend
     = (Calls (Success (JObj [])), after_set)"
  by (simp add: after_set_def set_alice)

lemma touch_after_set:
  "touch engine default_store 2000 ''abc123'' guest after_set =
     (Calls (Success (JObj [])),
      \<lparr> tables = (\<lambda>t. Map.empty)(''sessions'' := [''sess:abc123'' \<mapsto>
          [(''id'', AttrS ''sess:abc123''), (''expires'', AttrN ''86402000''),
           (''type'', AttrS ''connect-session''), (''sess'', AttrS alice_text)]]),
        faults = (\<lambda>n. None),
        requests = [PutItem ''sessions'' alice_item,
                    UpdateItem ''sessions'' ''sess:abc123'' ''expires'' (AttrN ''86402000'')] \<rparr>)"
proof -
  have d: "number_to_string 86402000 = ''86402000''"
    by (simp add: number_to_string_def nat_to_string.simps digit_char_def)
  have e: "after_set = \<lparr> tables = (\<lambda>t. Map.empty)(''sessions'' := [''sess:abc123'' \<mapsto> alice_item]),
        faults = (\<lambda>n. None),
        requests = [PutItem ''sessions'' alice_item] \<rparr>"
    by (simp add: after_set_def set_alice)
  show ?thesis
    by (simp add: touch_runs [OF guest_cookie(1)] guest_cookie store_fields engine_num d send_def e
          reply_of_def alice_item_def)
qed

lemma after_touch_fields:
  "tables after_touch ''sessions'' ''sess:abc123'' =
     Some [(''id'', AttrS ''sess:abc123''), (''expires'', AttrN ''86402000''),
           (''type'', AttrS ''connect-session''), (''sess'', AttrS alice_text)]"
  "faults after_touch = (\<lambda>n. None)"
  "requests after_touch = [PutItem ''sessions'' alice_item,
      UpdateItem ''sessions'' ''sess:abc123'' ''expires'' (AttrN ''86402000'')]"
  by (simp_all add: after_touch_def touch_after_set)

section \<open>The claims\<close>

text \<open>
  C1. Claim: for a payload with a numeric max-age \<open>m\<close>, after \<open>set(s, p)\<close> succeeds, a
  \<open>get(s)\<close> at or after the write time plus \<open>m\<close> answers \<open>null\<close> and deletes the record
  under the prefixed id.

  The code does not do this. Its expiry test is \<open>now >= result.Item.expires\<close>, and the
  attribute is the wrapper object \<open>{N: '6000'}\<close> that \<open>set\<close> itself wrote, not a
  number: the comparison converts the object to \<open>NaN\<close> and is false at every time
  (lemma \<open>attr_never_past\<close>), so the branch that destroys the record is never taken
  (lemma \<open>get_answered\<close>) and the payload is served for ever (lemma \<open>get_after_set\<close>).
  The run below is the specification's own scenario: \<open>alice\<close>, max-age 5000, is set under
  \<open>abc123\<close> at time 1000 and read at time 7000; the read answers \<open>alice\<close>, issues no
  delete, and the record is still in the table.
\<close>

theorem expired_session_is_still_served:
  "fst (set_session engine default_store 1000 ''abc123'' alice empty_backend)
     = Calls (Success (JObj [])) \<and>
   numeric_maxAge alice = Some 5000 \<and>
   fst (get engine default_store 7000 ''abc123'' after_set) = Calls (Success alice) \<and>
   issued after_set after_get = [GetItem ''sessions'' ''sess:abc123'' True] \<and>
   tables after_get ''sessions'' ''sess:abc123'' = Some alice_item"
  by (simp add: set_alice alice_cookie get_alice after_get_def issued_def after_set_fields)

text \<open>
  C2. Claim: \<open>destroy(s)\<close> followed by \<open>get(s)\<close> answers \<open>null\<close> and no error, for every
  prior state, in particular when \<open>set(s, p)\<close> created a record for \<open>s\<close>.

  The code does not do this. \<open>set\<close> and \<open>get\<close> address the key \<open>prefix + sid\<close>, while
  \<open>destroy\<close> hands its argument to \<open>deleteItem\<close> as it is: called with the session id,
  it deletes the key \<open>abc123\<close>, which holds nothing, and leaves the record
  \<open>sess:abc123\<close> in place, so the following \<open>get\<close> still answers the payload.
\<close>

theorem destroy_misses_prefixed_record:
  "fst (set_session engine default_store 1000 ''abc123'' alice empty_backend)
     = Calls (Success (JObj [])) \<and>
   fst (destroy default_store ''abc123'' after_set)
     = Calls (Success (JObj [])) \<and>
   issued after_set after_destroy = [DeleteItem ''sessions'' ''abc123''] \<and>
   tables after_destroy ''sessions'' ''sess:abc123'' = Some alice_item \<and>
   fst (get engine default_store 2000 ''abc123'' after_destroy) = Calls (Success alice)"
  by (simp add: set_alice destroy_alice issued_def after_destroy_fields after_set_fields
        get_answered store_fields alice_item_sess alice_parse alice_text_nonempty Let_def)

text \<open>
  C3. For every session id and every JSON-serializable payload without a numeric
  max-age: if \<open>set\<close> succeeded at time \<open>t0\<close>, a \<open>get\<close> of the same id on the resulting
  state at a time \<open>t1\<close> less than one day later, whose read the service answers, calls
  back with no error and with the payload that was set.
\<close>

theorem set_then_get_returns_payload:
  assumes "set_session rt this t0 sid p b = (Calls (Success ack), b1)"
    and "json_serializable rt p"
    and "numeric_maxAge p = None"
    and "t0 \<le> t1" and "t1 < t0 + 86400000"
    and "faults b1 (length (requests b1)) = None"
  shows "fst (get rt this t1 sid b1) = Calls (Success p)"
  using assms(1,2,6) by (rule get_after_set)

theorem set_then_get_returns_payload_witness:
  "set_session engine default_store 1000 ''abc123'' guest empty_backend
     = (Calls (Success (JObj [])), guest_stored) \<and>
   json_serializable engine guest \<and>
   numeric_maxAge guest = None \<and>
   (1000::int) \<le> 5000 \<and> (5000::int) < 1000 + 86400000 \<and>
   faults guest_stored (length (requests guest_stored)) = None \<and>
   fst (get engine default_store 5000 ''abc123'' guest_stored) = Calls (Success guest)"
proof -
  have h1: "set_session engine default_store 1000 ''abc123'' guest empty_backend
     = (Calls (Success (JObj [])), guest_stored)" by (rule set_guest)
  have h2: "json_serializable engine guest" by (rule guest_serializable)
  have h3: "numeric_maxAge guest = None" by (rule guest_cookie(2))
  have h4: "(1000::int) \<le> 5000" by simp
  have h5: "(5000::int) < 1000 + 86400000" by simp
  have h6: "faults guest_stored (length (requests guest_stored)) = None"
    by (simp add: guest_stored_faults)
  from set_then_get_returns_payload [OF h1 h2 h3 h4 h5 h6] h1 h2 h3 h6
  show ?thesis by simp
qed

text \<open>
  C4. Claim: for every session id and every payload, \<open>touch\<close> issues a partial update
  keyed by the prefixed id that sets only \<open>expires\<close>, leaving \<open>sess\<close> and \<open>type\<close> as they
  are, so that a \<open>get\<close> right after it still answers the payload set before.

  The first part fails for a payload without cookie: \<open>touch\<close> reads
  \<open>sess.cookie.maxAge\<close> before it does anything else, which throws, and no request is
  issued. Below, \<open>alice\<close> is stored and \<open>touch\<close> is then called with a payload that has
  no cookie.
\<close>

theorem touch_without_cookie_sends_nothing:
  "get_prop no_cookie_payload ''cookie'' = Inr JUndefined \<and>
   fst (touch engine default_store 2000 ''abc123'' no_cookie_payload after_set)
     = Throws TypeError \<and>
   issued after_set
     (snd (touch engine default_store 2000 ''abc123'' no_cookie_payload after_set)) = []"
proof -
  have "no_cookie no_cookie_payload"
    by (simp add: no_cookie_def no_cookie_payload_def)
  then show ?thesis
    by (simp add: touch_throws issued_same) (simp add: no_cookie_payload_def)
qed

text \<open>
  C4, amended. For a payload that has a cookie to read (neither the payload nor its
  cookie is \<open>undefined\<close> or \<open>null\<close>), \<open>touch\<close> calls back and issues exactly one request,
  the update keyed by the prefixed id that assigns the \<open>expires\<close> attribute; for any
  other payload it throws and leaves the service as it was. In either case every stored
  item keeps its \<open>sess\<close> and \<open>type\<close> attributes, and indeed every attribute but
  \<open>expires\<close>; consequently, if the state before the \<open>touch\<close> was produced by a successful
  \<open>set\<close> of a serializable payload \<open>p0\<close> under the same id, a \<open>get\<close> after the \<open>touch\<close>
  and before the new expiry, whose read the service answers, still answers \<open>p0\<close>.
\<close>

theorem touch_updates_only_expires:
  "(no_cookie p \<longrightarrow> touch rt this now sid p b = (Throws TypeError, b)) \<and>
   (\<not> no_cookie p \<longrightarrow>
      (\<exists>r. fst (touch rt this now sid p b) = Calls r) \<and>
      issued b (snd (touch rt this now sid p b)) =
        [UpdateItem (table this) (prefix this @ sid) ''expires''
           (AttrN (num_toString rt (spec_expires rt now p)))]) \<and>
   (\<forall>t k it. tables b t k = Some it \<longrightarrow>
      (\<exists>it'. tables (snd (touch rt this now sid p b)) t k = Some it' \<and>
             map_of it' ''sess'' = map_of it ''sess'' \<and>
             map_of it' ''type'' = map_of it ''type'' \<and>
             (\<forall>a. a \<noteq> ''expires'' \<longrightarrow> map_of it' a = map_of it a))) \<and>
   (\<forall>t0 p0 b0 ack t1.
      set_session rt this t0 sid p0 b0 = (Calls (Success ack), b) \<and>
      json_serializable rt p0 \<and> now \<le> t1 \<and>
      \<not> num_ge rt (num_of_int rt t1) (spec_expires rt now p) \<and>
      faults (snd (touch rt this now sid p b))
        (length (requests (snd (touch rt this now sid p b)))) = None \<longrightarrow>
      fst (get rt this t1 sid (snd (touch rt this now sid p b))) = Calls (Success p0))"
proof -
  let ?b' = "snd (touch rt this now sid p b)"
  have a: "no_cookie p \<longrightarrow> touch rt this now sid p b = (Throws TypeError, b)"
    by (simp add: touch_throws)
  have b: "\<not> no_cookie p \<longrightarrow>
      (\<exists>r. fst (touch rt this now sid p b) = Calls r) \<and>
      issued b ?b' =
        [UpdateItem (table this) (prefix this @ sid) ''expires''
           (AttrN (num_toString rt (spec_expires rt now p)))]"
    by (simp add: issued_touch_cases) (simp add: touch_runs split_beta)
  have c: "\<forall>t k it. tables b t k = Some it \<longrightarrow>
      (\<exists>it'. tables ?b' t k = Some it' \<and>
             map_of it' ''sess'' = map_of it ''sess'' \<and>
             map_of it' ''type'' = map_of it ''type'' \<and>
             (\<forall>a. a \<noteq> ''expires'' \<longrightarrow> map_of it' a = map_of it a))"
  proof (intro allI impI)
    fix t k it assume "tables b t k = Some it"
    from touch_frame [OF this, of rt this now sid p] obtain it' where
      "tables ?b' t k = Some it'" and "\<forall>a. a \<noteq> ''expires'' \<longrightarrow> map_of it' a = map_of it a"
      by blast
    then show "\<exists>it'. tables ?b' t k = Some it' \<and>
             map_of it' ''sess'' = map_of it ''sess'' \<and>
             map_of it' ''type'' = map_of it ''type'' \<and>
             (\<forall>a. a \<noteq> ''expires'' \<longrightarrow> map_of it' a = map_of it a)"
      by simp
  qed
  have d: "\<forall>t0 p0 b0 ack t1.
      set_session rt this t0 sid p0 b0 = (Calls (Success ack), b) \<and>
      json_serializable rt p0 \<and> now \<le> t1 \<and>
      \<not> num_ge rt (num_of_int rt t1) (spec_expires rt now p) \<and>
      faults ?b' (length (requests ?b')) = None \<longrightarrow>
      fst (get rt this t1 sid ?b') = Calls (Success p0)"
  proof (intro allI impI, elim conjE)
    fix t0 p0 b0 ack t1
    assume stored_by: "set_session rt this t0 sid p0 b0 = (Calls (Success ack), b)"
      and ser: "json_serializable rt p0"
      and answered: "faults ?b' (length (requests ?b')) = None"
    from set_session_succeeded [OF stored_by] obtain e s where
      str: "JSON_stringify rt p0 = Inr s" and
      stored: "tables b (table this) (prefix this @ sid) =
         Some [(''id'', AttrS (prefix this @ sid)), (''expires'', AttrN e),
               (''type'', AttrS ''connect-session''), (''sess'', AttrS s)]"
      by blast
    from touch_frame [OF stored, of rt this now sid p] obtain it' where
      it': "tables ?b' (table this) (prefix this @ sid) = Some it'" and
      same: "\<forall>a. a \<noteq> ''expires'' \<longrightarrow> map_of it' a =
         map_of [(''id'', AttrS (prefix this @ sid)), (''expires'', AttrN e),
               (''type'', AttrS ''connect-session''), (''sess'', AttrS s)] a"
      by blast
    from same have sess: "map_of it' ''sess'' = Some (AttrS s)" by simp
    from ser str have "s \<noteq> []" and "JSON_parse rt s = Inr p0"
      by (simp_all add: json_serializable_def)
    then show "fst (get rt this t1 sid ?b') = Calls (Success p0)"
      by (simp add: get_answered [OF answered] it' sess Let_def)
  qed
  from a b c d show ?thesis by (intro conjI)
qed

theorem touch_updates_only_expires_witness:
  "\<not> no_cookie guest \<and>
   fst (touch engine default_store 2000 ''abc123'' guest after_set)
     = Calls (Success (JObj [])) \<and>
   issued after_set after_touch =
     [UpdateItem ''sessions'' ''sess:abc123'' ''expires'' (AttrN ''86402000'')] \<and>
   tables after_set ''sessions'' ''sess:abc123'' = Some alice_item \<and>
   tables after_touch ''sessions'' ''sess:abc123'' =
     Some [(''id'', AttrS ''sess:abc123''), (''expires'', AttrN ''86402000''),
           (''type'', AttrS ''connect-session''), (''sess'', AttrS alice_text)] \<and>
   map_of alice_item ''sess'' = Some (AttrS alice_text) \<and>
   set_session engine default_store 1000 ''abc123'' alice empty_backend
     = (Calls (Success (JObj [])), after_set) \<and>
   json_serializable engine alice \<and>
   (2000::int) \<le> 3000 \<and>
   \<not> num_ge engine (num_of_int engine 3000) (spec_expires engine 2000 guest) \<and>
   faults after_touch (length (requests after_touch)) = None \<and>
   fst (get engine default_store 3000 ''abc123'' after_touch) = Calls (Success alice) \<and>
   no_cookie no_cookie_payload \<and>
   touch engine default_store 2000 ''abc123'' no_cookie_payload after_set
     = (Throws TypeError, after_set)"
proof -
  have h1: "\<not> no_cookie guest" by (rule guest_cookie(1))
  have h2: "set_session engine default_store 1000 ''abc123'' alice empty_backend
     = (Calls (Success (JObj [])), after_set)" by (rule set_alice_after_set)
  have h3: "json_serializable engine alice" by (rule alice_serializable)
  have h4: "(2000::int) \<le> 3000" by simp
  have h5: "\<not> num_ge engine (num_of_int engine 3000) (spec_expires engine 2000 guest)"
    by (simp add: guest_cookie engine_num)
  have h6: "faults after_touch (length (requests after_touch)) = None"
    by (simp add: after_touch_fields)
  have h7: "tables after_set ''sessions'' ''sess:abc123'' = Some alice_item"
    by (simp add: after_set_fields)
  have h8: "no_cookie no_cookie_payload"
    by (simp add: no_cookie_def no_cookie_payload_def)
  have h9: "fst (touch engine default_store 2000 ''abc123'' guest after_set)
     = Calls (Success (JObj []))"
    by (simp add: touch_after_set)
  note run = touch_updates_only_expires
         [of guest engine default_store 2000 "''abc123''" after_set,
          folded after_touch_def]
  note thrown = touch_updates_only_expires
         [of no_cookie_payload engine default_store 2000 "''abc123''" after_set]
  from run h1 have a: "issued after_set after_touch =
     [UpdateItem (table default_store) (prefix default_store @ ''abc123'') ''expires''
        (AttrN (num_toString engine (spec_expires engine 2000 guest)))]"
    by simp
  from run have "\<forall>t0 p0 b0 ack t1.
      set_session engine default_store t0 ''abc123'' p0 b0 = (Calls (Success ack), after_set) \<and>
      json_serializable engine p0 \<and> 2000 \<le> t1 \<and>
      \<not> num_ge engine (num_of_int engine t1) (spec_expires engine 2000 guest) \<and>
      faults after_touch (length (requests after_touch)) = None \<longrightarrow>
      fst (get engine default_store t1 ''abc123'' after_touch) = Calls (Success p0)"
    by (rule conjunct2 [THEN conjunct2, THEN conjunct2])
  from this h2 h3 h4 h5 h6
  have b: "fst (get engine default_store 3000 ''abc123'' after_touch) = Calls (Success alice)"
    by blast
  from thrown h8
  have c: "touch engine default_store 2000 ''abc123'' no_cookie_payload after_set
     = (Throws TypeError, after_set)"
    by simp
  have d: "number_to_string 86402000 = ''86402000''"
    by (simp add: number_to_string_def nat_to_string.simps digit_char_def)
  from a have a': "issued after_set after_touch =
     [UpdateItem ''sessions'' ''sess:abc123'' ''expires'' (AttrN ''86402000'')]"
    by (simp add: store_fields guest_cookie engine_num d)
  from a' b c h1 h2 h3 h4 h5 h6 h7 h8 h9 show ?thesis
    by (simp add: after_touch_fields alice_item_sess)
qed

text \<open>
  C5. If the record under the prefixed id has a \<open>sess\<close> attribute that is a non-empty
  string which the engine cannot parse, \<open>get\<close> calls back with the parse error: it does
  not throw, and it does not answer \<open>null\<close>.
\<close>

theorem get_malformed_payload_is_error:
  assumes "tables b (table this) (prefix this @ sid) = Some it"
    and "map_of it ''sess'' = Some (AttrS s)" and "s \<noteq> []"
    and "JSON_parse rt s = Inl e"
    and "faults b (length (requests b)) = None"
  shows "fst (get rt this now sid b) = Calls (Failure e)"
  using assms(1-4) by (simp add: get_answered [OF assms(5)] Let_def)

theorem get_malformed_payload_is_error_witness:
  "tables corrupt_backend (table default_store) (prefix default_store @ ''abc123'')
     = Some corrupt_item \<and>
   map_of corrupt_item ''sess'' = Some (AttrS ''{broken'') \<and>
   ''{broken'' \<noteq> [] \<and>
   JSON_parse engine ''{broken'' = Inl SyntaxError \<and>
   faults corrupt_backend (length (requests corrupt_backend)) = None \<and>
   fst (get engine default_store 2000 ''abc123'' corrupt_backend) = Calls (Failure SyntaxError)"
proof -
  have h1: "tables corrupt_backend (table default_store) (prefix default_store @ ''abc123'')
     = Some corrupt_item" by (simp add: corrupt_backend_def store_fields)
  have h2: "map_of corrupt_item ''sess'' = Some (AttrS ''{broken'')"
    by (simp add: corrupt_item_def)
  have h3: "''{broken'' \<noteq> []" by simp
  have h4: "JSON_parse engine ''{broken'' = Inl SyntaxError" by (rule broken_parse)
  have h5: "faults corrupt_backend (length (requests corrupt_backend)) = None"
    by (simp add: corrupt_backend_def)
  from get_malformed_payload_is_error [OF h1 h2 h3 h4 h5] h1 h2 h4 h5
  show ?thesis by simp
qed

text \<open>
  C6. Whatever \<open>set\<close> and \<open>touch\<close> write as \<open>expires\<close> is the text of one and the same
  number, the one of the specification's rule: the engine's sum of the time of the call
  and the payload's numeric max-age if it declares one, of the time of the call and
  86400000 otherwise. \<open>set\<close> writes that number as \<open>JSON.stringify\<close> prints it, \<open>touch\<close>
  as \<open>toString\<close> prints it. Each operation issues its one write whenever the payload
  has a cookie to read (and, for \<open>set\<close>, can be serialized).
\<close>

theorem expiry_rule_of_set_and_touch:
  "(\<forall>r \<in> set (issued b (snd (set_session rt this now sid p b))).
      written_expires r = Some (AttrN (num_toJSON rt (spec_expires rt now p)))) \<and>
   (\<forall>r \<in> set (issued b (snd (touch rt this now sid p b))).
      written_expires r = Some (AttrN (num_toString rt (spec_expires rt now p)))) \<and>
   (\<not> no_cookie p \<longrightarrow> length (issued b (snd (touch rt this now sid p b))) = 1) \<and>
   (\<not> no_cookie p \<and> JSON_stringify rt p = Inr s \<longrightarrow>
      length (issued b (snd (set_session rt this now sid p b))) = 1)"
proof (cases "no_cookie p")
  case True
  then show ?thesis by (simp add: touch_throws set_session_throws issued_same)
next
  case False
  have t: "issued b (snd (touch rt this now sid p b)) =
      [UpdateItem (table this) (prefix this @ sid) ''expires''
         (AttrN (num_toString rt (spec_expires rt now p)))]"
    by (simp add: issued_touch_cases False)
  show ?thesis
  proof (cases "JSON_stringify rt p")
    case (Inl e)
    then show ?thesis
      using False by (simp add: t set_session_stringify_throws issued_same)
  next
    case (Inr s')
    then show ?thesis
      using False by (simp add: t set_session_runs split_beta issued_send)
  qed
qed

theorem expiry_rule_of_set_and_touch_witness:
  "PutItem ''sessions'' alice_item \<in>
     set (issued empty_backend
            (snd (set_session engine default_store 1000 ''abc123'' alice empty_backend))) \<and>
   numeric_maxAge alice = Some 5000 \<and>
   spec_expires engine 1000 alice = 1000 + 5000 \<and>
   written_expires (PutItem ''sessions'' alice_item)
     = Some (AttrN (num_toJSON engine (spec_expires engine 1000 alice))) \<and>
   written_expires (PutItem ''sessions'' alice_item) = Some (AttrN ''6000'') \<and>
   UpdateItem ''sessions'' ''sess:abc123'' ''expires'' (AttrN ''86401000'') \<in>
     set (issued empty_backend
            (snd (touch engine default_store 1000 ''abc123'' guest empty_backend))) \<and>
   numeric_maxAge guest = None \<and>
   spec_expires engine 1000 guest = 1000 + 86400000 \<and>
   written_expires (UpdateItem ''sessions'' ''sess:abc123'' ''expires'' (AttrN ''86401000''))
     = Some (AttrN (num_toString engine (spec_expires engine 1000 guest))) \<and>
   \<not> no_cookie guest \<and>
   length (issued empty_backend
             (snd (touch engine default_store 1000 ''abc123'' guest empty_backend))) = 1"
proof -
  have h1: "PutItem ''sessions'' alice_item \<in>
     set (issued empty_backend
            (snd (set_session engine default_store 1000 ''abc123'' alice empty_backend)))"
    by (simp add: issued_set_alice)
  have h2: "UpdateItem ''sessions'' ''sess:abc123'' ''expires'' (AttrN ''86401000'') \<in>
     set (issued empty_backend
            (snd (touch engine default_store 1000 ''abc123'' guest empty_backend)))"
    by (simp add: touch_guest_empty)
  note at_alice = expiry_rule_of_set_and_touch
         [of empty_backend engine default_store 1000 "''abc123''" alice]
  note at_guest = expiry_rule_of_set_and_touch
         [of empty_backend engine default_store 1000 "''abc123''" guest]
  from at_alice
  have "\<forall>r \<in> set (issued empty_backend
                      (snd (set_session engine default_store 1000 ''abc123'' alice empty_backend))).
          written_expires r = Some (AttrN (num_toJSON engine (spec_expires engine 1000 alice)))"
    by (rule conjunct1)
  from this h1
  have a: "written_expires (PutItem ''sessions'' alice_item)
      = Some (AttrN (num_toJSON engine (spec_expires engine 1000 alice)))"
    by (rule bspec)
  from at_guest
  have "\<forall>r \<in> set (issued empty_backend
                      (snd (touch engine default_store 1000 ''abc123'' guest empty_backend))).
          written_expires r = Some (AttrN (num_toString engine (spec_expires engine 1000 guest)))"
    by (rule conjunct2 [THEN conjunct1])
  from this h2
  have b: "written_expires (UpdateItem ''sessions'' ''sess:abc123'' ''expires''
              (AttrN ''86401000''))
      = Some (AttrN (num_toString engine (spec_expires engine 1000 guest)))"
    by (rule bspec)
  from at_guest guest_cookie(1)
  have c: "length (issued empty_backend
                (snd (touch engine default_store 1000 ''abc123'' guest empty_backend))) = 1"
    by simp
  have d: "written_expires (PutItem ''sessions'' alice_item) = Some (AttrN ''6000'')"
    by (simp add: alice_item_def)
  from a b c d h1 h2 show ?thesis
    by (simp add: alice_cookie guest_cookie)
qed

text \<open>
  C7. If \<open>get\<close> reads an item whose \<open>sess\<close> attribute is missing or is the empty string,
  it calls back with \<open>null\<close> and no error, having issued, after the read, the delete of
  the record under the prefixed id; when the service carries the delete out, the record
  is gone. (The callback does not wait on the outcome of the delete: it answers
  \<open>null\<close> also when the delete fails.)
\<close>

theorem get_without_payload_destroys:
  assumes "tables b (table this) (prefix this @ sid) = Some it"
    and "map_of it ''sess'' = None \<or> map_of it ''sess'' = Some (AttrS [])"
    and "faults b (length (requests b)) = None"
  shows "fst (get rt this now sid b) = Calls (Success JNull) \<and>
         issued b (snd (get rt this now sid b)) =
           [GetItem (table this) (prefix this @ sid) True,
            DeleteItem (table this) (prefix this @ sid)] \<and>
         (faults b (Suc (length (requests b))) = None \<longrightarrow>
            tables (snd (get rt this now sid b)) (table this) (prefix this @ sid) = None)"
  using assms(1,2)
  by (auto simp: get_answered [OF assms(3)] Let_def destroy_def deleteItem_def send_def
        split_beta issued_def
      split: option.splits)

theorem get_without_payload_destroys_witness:
  "tables bare_backend (table default_store) (prefix default_store @ ''abc123'')
     = Some bare_item \<and>
   map_of bare_item ''sess'' = None \<and>
   faults bare_backend (length (requests bare_backend)) = None \<and>
   faults bare_backend (Suc (length (requests bare_backend))) = None \<and>
   fst (get engine default_store 2000 ''abc123'' bare_backend) = Calls (Success JNull) \<and>
   issued bare_backend (snd (get engine default_store 2000 ''abc123'' bare_backend)) =
     [GetItem ''sessions'' ''sess:abc123'' True, DeleteItem ''sessions'' ''sess:abc123''] \<and>
   tables (snd (get engine default_store 2000 ''abc123'' bare_backend)) ''sessions''
     ''sess:abc123'' = None"
proof -
  have h1: "tables bare_backend (table default_store) (prefix default_store @ ''abc123'')
     = Some bare_item" by (simp add: bare_backend_def store_fields)
  have h2: "map_of bare_item ''sess'' = None" by (simp add: bare_item_def)
  have h3: "faults bare_backend (length (requests bare_backend)) = None"
    by (simp add: bare_backend_def)
  have h4: "faults bare_backend (Suc (length (requests bare_backend))) = None"
    by (simp add: bare_backend_def)
  from get_without_payload_destroys [OF h1 disjI1 [OF h2] h3, of engine 2000] h1 h2 h3 h4
  show ?thesis by (simp add: store_fields)
qed

text \<open>
  C8. Every request that \<open>get\<close>, \<open>set\<close> and \<open>touch\<close> issue goes to the store's table
  and addresses the key \<open>prefix + sid\<close>; for the item that \<open>set\<close> writes this is its
  \<open>id\<close> attribute, and its attributes are \<open>id\<close>, \<open>expires\<close>, \<open>type\<close> and \<open>sess\<close>, none of
  them the prefix. \<open>set\<close> and \<open>touch\<close> issue at most one request, \<open>get\<close> its read and at
  most one delete after it. The prefix is the configured one, \<open>sess:\<close> when none is
  given.
\<close>

theorem requests_keyed_by_prefixed_id:
  "(\<forall>r \<in> set (issued b (snd (get rt this now sid b))).
      request_key r = Some (AttrS (prefix this @ sid)) \<and> request_table r = table this) \<and>
   (\<forall>r \<in> set (issued b (snd (set_session rt this now sid p b))).
      request_key r = Some (AttrS (prefix this @ sid)) \<and> request_table r = table this \<and>
      (\<forall>t it. r = PutItem t it \<longrightarrow> map fst it = [''id'', ''expires'', ''type'', ''sess''])) \<and>
   (\<forall>r \<in> set (issued b (snd (touch rt this now sid p b))).
      request_key r = Some (AttrS (prefix this @ sid)) \<and> request_table r = table this) \<and>
   length (issued b (snd (set_session rt this now sid p b))) \<le> 1 \<and>
   length (issued b (snd (touch rt this now sid p b))) \<le> 1 \<and>
   length (issued b (snd (get rt this now sid b))) \<le> 2 \<and>
   (opt_prefix opts = None \<longrightarrow> prefix (DynamoDBStore opts) = ''sess:'') \<and>
   (\<forall>x. opt_prefix opts = Some x \<longrightarrow> prefix (DynamoDBStore opts) = x)"
proof -
  have g: "\<forall>r \<in> set (issued b (snd (get rt this now sid b))).
      request_key r = Some (AttrS (prefix this @ sid)) \<and> request_table r = table this"
    by (auto simp: get_def getItem_def destroy_def deleteItem_def Let_def split_beta issued_def
          requests_send
        split: sum.splits option.splits if_splits)
  have s: "\<forall>r \<in> set (issued b (snd (set_session rt this now sid p b))).
      request_key r = Some (AttrS (prefix this @ sid)) \<and> request_table r = table this \<and>
      (\<forall>t it. r = PutItem t it \<longrightarrow> map fst it = [''id'', ''expires'', ''type'', ''sess''])"
    by (auto simp: set_session_def putItem_def Let_def split_beta issued_def requests_send
        split: sum.splits)
  have t: "\<forall>r \<in> set (issued b (snd (touch rt this now sid p b))).
      request_key r = Some (AttrS (prefix this @ sid)) \<and> request_table r = table this"
    by (auto simp: touch_def updateItem_def Let_def split_beta issued_def requests_send
        split: sum.splits)
  have d: "(opt_prefix opts = None \<longrightarrow> prefix (DynamoDBStore opts) = ''sess:'') \<and>
      (\<forall>x. opt_prefix opts = Some x \<longrightarrow> prefix (DynamoDBStore opts) = x)"
    by (simp add: DynamoDBStore_def)
  have n1: "length (issued b (snd (set_session rt this now sid p b))) \<le> 1"
    by (auto simp: set_session_def putItem_def Let_def split_beta issued_def requests_send
        split: sum.splits)
  have n2: "length (issued b (snd (touch rt this now sid p b))) \<le> 1"
    by (auto simp: touch_def updateItem_def Let_def split_beta issued_def requests_send
        split: sum.splits)
  have n3: "length (issued b (snd (get rt this now sid b))) \<le> 2"
    using issued_get_cases [of b rt this now sid] by auto
  from g s t n1 n2 n3 d show ?thesis by blast
qed

theorem requests_keyed_by_prefixed_id_witness:
  "DeleteItem ''sessions'' ''sess:abc123'' \<in>
     set (issued bare_backend (snd (get engine default_store 2000 ''abc123'' bare_backend))) \<and>
   request_key (DeleteItem ''sessions'' ''sess:abc123'')
     = Some (AttrS (prefix default_store @ ''abc123'')) \<and>
   PutItem ''sessions'' alice_item \<in>
     set (issued empty_backend
            (snd (set_session engine default_store 1000 ''abc123'' alice empty_backend))) \<and>
   request_key (PutItem ''sessions'' alice_item) = Some (AttrS (''sess:'' @ ''abc123'')) \<and>
   map fst alice_item = [''id'', ''expires'', ''type'', ''sess''] \<and>
   UpdateItem ''sessions'' ''sess:abc123'' ''expires'' (AttrN ''86401000'') \<in>
     set (issued empty_backend (snd (touch engine default_store 1000 ''abc123'' guest empty_backend))) \<and>
   opt_prefix \<lparr>opt_prefix = None, opt_table = None\<rparr> = None \<and>
   prefix (DynamoDBStore \<lparr>opt_prefix = None, opt_table = None\<rparr>) = ''sess:'' \<and>
   opt_prefix \<lparr>opt_prefix = Some ''s/'', opt_table = None\<rparr> = Some ''s/'' \<and>
   prefix (DynamoDBStore \<lparr>opt_prefix = Some ''s/'', opt_table = None\<rparr>) = ''s/''"
proof -
  have h1: "DeleteItem ''sessions'' ''sess:abc123'' \<in>
     set (issued bare_backend (snd (get engine default_store 2000 ''abc123'' bare_backend)))"
    by (simp add: get_bare)
  have h2: "PutItem ''sessions'' alice_item \<in>
     set (issued empty_backend
            (snd (set_session engine default_store 1000 ''abc123'' alice empty_backend)))"
    by (simp add: issued_set_alice)
  have h3: "UpdateItem ''sessions'' ''sess:abc123'' ''expires'' (AttrN ''86401000'') \<in>
     set (issued empty_backend (snd (touch engine default_store 1000 ''abc123'' guest empty_backend)))"
    by (simp add: touch_guest_empty)
  from requests_keyed_by_prefixed_id
         [of bare_backend engine default_store 2000 "''abc123''" alice
             "\<lparr>opt_prefix = None, opt_table = None\<rparr>"]
  have a: "request_key (DeleteItem ''sessions'' ''sess:abc123'')
     = Some (AttrS (prefix default_store @ ''abc123''))"
    and d1: "prefix (DynamoDBStore \<lparr>opt_prefix = None, opt_table = None\<rparr>) = ''sess:''"
    using h1 by (blast, simp)
  from requests_keyed_by_prefixed_id
         [of empty_backend engine default_store 1000 "''abc123''" alice
             "\<lparr>opt_prefix = Some ''s/'', opt_table = None\<rparr>"]
  have b: "request_key (PutItem ''sessions'' alice_item)
     = Some (AttrS (prefix default_store @ ''abc123''))"
    and c: "map fst alice_item = [''id'', ''expires'', ''type'', ''sess'']"
    and d2: "prefix (DynamoDBStore \<lparr>opt_prefix = Some ''s/'', opt_table = None\<rparr>) = ''s/''"
    using h2 by (blast, blast, simp)
  from a b c d1 d2 h1 h2 h3 show ?thesis
    by (simp add: store_fields)
qed

text \<open>
  C9. \<open>destroy\<close> issues one delete whose key is its argument, verbatim, and a delete
  that the service carries out removes that key and no other. The deletes that \<open>get\<close>
  issues carry the prefixed id. So for one session id the key deleted depends on the
  caller: \<open>sid\<close> through the public \<open>destroy\<close>, \<open>prefix + sid\<close> through \<open>get\<close>, and the
  two differ whenever the prefix is not empty.
\<close>

theorem destroy_deletes_key_verbatim:
  "issued b (snd (destroy this k b)) = [DeleteItem (table this) k] \<and>
   (faults b (length (requests b)) = None \<longrightarrow>
      tables (snd (destroy this k b)) (table this) k = None \<and>
      (\<forall>k'. k' \<noteq> k \<longrightarrow>
         tables (snd (destroy this k b)) (table this) k' = tables b (table this) k')) \<and>
   (\<forall>r \<in> set (issued b (snd (get rt this now sid b))).
      \<forall>t k'. r = DeleteItem t k' \<longrightarrow> k' = prefix this @ sid) \<and>
   (prefix this \<noteq> [] \<longrightarrow> prefix this @ sid \<noteq> sid)"
proof -
  have a: "issued b (snd (destroy this k b)) = [DeleteItem (table this) k]"
    by (simp add: destroy_def deleteItem_def split_beta issued_send)
  have b: "faults b (length (requests b)) = None \<longrightarrow>
      tables (snd (destroy this k b)) (table this) k = None \<and>
      (\<forall>k'. k' \<noteq> k \<longrightarrow>
         tables (snd (destroy this k b)) (table this) k' = tables b (table this) k')"
    by (simp add: destroy_def deleteItem_def split_beta send_ok)
  have c: "\<forall>r \<in> set (issued b (snd (get rt this now sid b))).
      \<forall>t k'. r = DeleteItem t k' \<longrightarrow> k' = prefix this @ sid"
    using issued_get_cases [of b rt this now sid] by auto
  from a b c show ?thesis by simp
qed

theorem destroy_deletes_key_verbatim_witness:
  "issued after_set (snd (destroy default_store ''abc123'' after_set))
     = [DeleteItem ''sessions'' ''abc123''] \<and>
   faults after_set (length (requests after_set)) = None \<and>
   tables (snd (destroy default_store ''abc123'' after_set)) ''sessions'' ''abc123'' = None \<and>
   ''sess:abc123'' \<noteq> ''abc123'' \<and>
   tables (snd (destroy default_store ''abc123'' after_set)) ''sessions'' ''sess:abc123''
     = Some alice_item \<and>
   DeleteItem ''sessions'' ''sess:abc123'' \<in>
     set (issued bare_backend (snd (get engine default_store 2000 ''abc123'' bare_backend))) \<and>
   prefix default_store \<noteq> [] \<and>
   prefix default_store @ ''abc123'' \<noteq> ''abc123''"
proof -
  have h1: "faults after_set (length (requests after_set)) = None"
    by (simp add: after_set_fields)
  have h2: "''sess:abc123'' \<noteq> ''abc123''" by simp
  have h3: "prefix default_store \<noteq> []" by (simp add: store_fields)
  have h4: "DeleteItem ''sessions'' ''sess:abc123'' \<in>
     set (issued bare_backend (snd (get engine default_store 2000 ''abc123'' bare_backend)))"
    by (simp add: get_bare)
  note fact = destroy_deletes_key_verbatim
         [of after_set default_store "''abc123''" engine 2000 "''abc123''"]
  from fact have a: "issued after_set (snd (destroy default_store ''abc123'' after_set))
       = [DeleteItem (table default_store) ''abc123'']"
    by (rule conjunct1)
  from fact h1 have b: "tables (snd (destroy default_store ''abc123'' after_set))
         (table default_store) ''abc123'' = None"
    by simp
  from fact h1 h2 have c: "tables (snd (destroy default_store ''abc123'' after_set))
         (table default_store) ''sess:abc123''
         = tables after_set (table default_store) ''sess:abc123''"
    by simp
  from fact h3 have d: "prefix default_store @ ''abc123'' \<noteq> ''abc123''"
    by simp
  from a b c d h1 h2 h3 h4 show ?thesis
    by (simp add: store_fields after_set_fields)
qed

text \<open>
  C10. Claim: for every payload that lacks a cookie, or whose cookie is not an object,
  \<open>set\<close> and \<open>touch\<close> throw while computing the expiry, and the one-day default only
  applies to payloads that carry a cookie object.

  This fails for a cookie that is a non-object primitive other than \<open>undefined\<close> and
  \<open>null\<close>: reading \<open>maxAge\<close> from the string \<open>'x'\<close> yields \<open>undefined\<close> without throwing,
  so both operations proceed and write the one-day default.
\<close>

theorem string_cookie_does_not_throw:
  "get_prop string_cookie_payload ''cookie'' = Inr (JStr ''x'') \<and>
   fst (set_session engine default_store 1000 ''abc123'' string_cookie_payload empty_backend)
     = Calls (Success (JObj [])) \<and>
   issued empty_backend
     (snd (set_session engine default_store 1000 ''abc123'' string_cookie_payload empty_backend))
     = [PutItem ''sessions''
          [(''id'', AttrS ''sess:abc123''), (''expires'', AttrN ''86401000''),
           (''type'', AttrS ''connect-session''),
           (''sess'', AttrS ''{\"cookie\":\"x\",\"user\":\"alice\"}'')]] \<and>
   fst (touch engine default_store 1000 ''abc123'' string_cookie_payload empty_backend)
     = Calls (Success (JObj [])) \<and>
   issued empty_backend
     (snd (touch engine default_store 1000 ''abc123'' string_cookie_payload empty_backend))
     = [UpdateItem ''sessions'' ''sess:abc123'' ''expires'' (AttrN ''86401000'')]"
  by (simp add: string_cookie_facts(1) set_string_cookie fst_touch_string_cookie
        issued_touch_string_cookie)

text \<open>
  C10, amended. \<open>set\<close> and \<open>touch\<close> throw a TypeError, before any request and without
  calling back, exactly for the payloads that are \<open>undefined\<close> or \<open>null\<close> or whose cookie
  is absent, \<open>undefined\<close> or \<open>null\<close>. For every other payload \<open>touch\<close> calls back, and so
  does \<open>set\<close> when the payload can be serialized; if such a payload declares no numeric
  max-age, the expiry written is the time of the call plus one day.
\<close>

theorem set_and_touch_without_cookie:
  "(no_cookie p \<longrightarrow>
      set_session rt this now sid p b = (Throws TypeError, b) \<and>
      touch rt this now sid p b = (Throws TypeError, b)) \<and>
   (\<not> no_cookie p \<longrightarrow>
      (\<exists>r. fst (touch rt this now sid p b) = Calls r) \<and>
      (\<forall>s. JSON_stringify rt p = Inr s \<longrightarrow>
         (\<exists>r. fst (set_session rt this now sid p b) = Calls r))) \<and>
   (\<not> no_cookie p \<and> numeric_maxAge p = None \<longrightarrow>
      (\<forall>r \<in> set (issued b (snd (touch rt this now sid p b))).
         written_expires r =
           Some (AttrN (num_toString rt
                   (num_add rt (num_of_int rt now) (num_of_int rt 86400000))))) \<and>
      (\<forall>r \<in> set (issued b (snd (set_session rt this now sid p b))).
         written_expires r =
           Some (AttrN (num_toJSON rt
                   (num_add rt (num_of_int rt now) (num_of_int rt 86400000))))))"
proof (cases "no_cookie p")
  case True
  then show ?thesis by (simp add: touch_throws set_session_throws)
next
  case False
  have t: "\<exists>r. fst (touch rt this now sid p b) = Calls r"
    by (simp add: touch_runs [OF False] split_beta)
  have s: "\<forall>s. JSON_stringify rt p = Inr s \<longrightarrow>
         (\<exists>r. fst (set_session rt this now sid p b) = Calls r)"
    by (simp add: set_session_runs [OF False] split_beta)
  have e: "numeric_maxAge p = None \<longrightarrow>
      (\<forall>r \<in> set (issued b (snd (touch rt this now sid p b))).
         written_expires r =
           Some (AttrN (num_toString rt
                   (num_add rt (num_of_int rt now) (num_of_int rt 86400000))))) \<and>
      (\<forall>r \<in> set (issued b (snd (set_session rt this now sid p b))).
         written_expires r =
           Some (AttrN (num_toJSON rt
                   (num_add rt (num_of_int rt now) (num_of_int rt 86400000)))))"
  proof (cases "JSON_stringify rt p")
    case (Inl e)
    then show ?thesis
      using False
      by (simp add: touch_runs set_session_stringify_throws split_beta issued_send issued_same
            spec_expires_def)
  next
    case (Inr s')
    then show ?thesis
      using False
      by (simp add: touch_runs set_session_runs split_beta issued_send spec_expires_def)
  qed
  from False t s e show ?thesis by simp
qed

theorem set_and_touch_without_cookie_witness:
  "no_cookie no_cookie_payload \<and>
   set_session engine default_store 1000 ''abc123'' no_cookie_payload empty_backend
     = (Throws TypeError, empty_backend) \<and>
   touch engine default_store 1000 ''abc123'' no_cookie_payload empty_backend
     = (Throws TypeError, empty_backend) \<and>
   \<not> no_cookie guest \<and> numeric_maxAge guest = None \<and>
   JSON_stringify engine guest = Inr guest_text \<and>
   (\<exists>r. fst (touch engine default_store 1000 ''abc123'' guest empty_backend) = Calls r) \<and>
   (\<exists>r. fst (set_session engine default_store 1000 ''abc123'' guest empty_backend) = Calls r) \<and>
   UpdateItem ''sessions'' ''sess:abc123'' ''expires'' (AttrN ''86401000'') \<in>
     set (issued empty_backend (snd (touch engine default_store 1000 ''abc123'' guest empty_backend))) \<and>
   written_expires (UpdateItem ''sessions'' ''sess:abc123'' ''expires'' (AttrN ''86401000''))
     = Some (AttrN (num_toString engine
               (num_add engine (num_of_int engine 1000) (num_of_int engine 86400000))))"
proof -
  have h1: "no_cookie no_cookie_payload"
    by (simp add: no_cookie_def no_cookie_payload_def)
  have h2: "\<not> no_cookie guest" by (rule guest_cookie(1))
  have h3: "numeric_maxAge guest = None" by (rule guest_cookie(2))
  have h4: "JSON_stringify engine guest = Inr guest_text" by (rule guest_stringify)
  have h5: "UpdateItem ''sessions'' ''sess:abc123'' ''expires'' (AttrN ''86401000'') \<in>
     set (issued empty_backend (snd (touch engine default_store 1000 ''abc123'' guest empty_backend)))"
    by (simp add: touch_guest_empty)
  note thrown = set_and_touch_without_cookie
         [of no_cookie_payload engine default_store 1000 "''abc123''" empty_backend]
  note runs = set_and_touch_without_cookie
         [of guest engine default_store 1000 "''abc123''" empty_backend]
  from thrown h1
  have a: "set_session engine default_store 1000 ''abc123'' no_cookie_payload empty_backend
       = (Throws TypeError, empty_backend)"
    and b: "touch engine default_store 1000 ''abc123'' no_cookie_payload empty_backend
       = (Throws TypeError, empty_backend)"
    by simp_all
  from runs h2
  have c: "\<exists>r. fst (touch engine default_store 1000 ''abc123'' guest empty_backend) = Calls r"
    by simp
  from runs h2 h4
  have d: "\<exists>r. fst (set_session engine default_store 1000 ''abc123'' guest empty_backend)
              = Calls r"
    by simp
  from runs h2 h3
  have "\<forall>r \<in> set (issued empty_backend
                      (snd (touch engine default_store 1000 ''abc123'' guest empty_backend))).
          written_expires r = Some (AttrN (num_toString engine
               (num_add engine (num_of_int engine 1000) (num_of_int engine 86400000))))"
    by simp
  from this h5
  have e: "written_expires (UpdateItem ''sessions'' ''sess:abc123'' ''expires''
              (AttrN ''86401000'')) = Some (AttrN (num_toString engine
               (num_add engine (num_of_int engine 1000) (num_of_int engine 86400000))))"
    by (rule bspec)
  from a b c d e h1 h2 h3 h4 h5 show ?thesis by (intro conjI)
qed

end
